theory Spec2Isabelle
  imports Complex_Main "HOL-Library.Word"
begin

unbundle bit_operations_syntax

section \<open>Strings, truthiness and exceptions\<close>

text \<open>
  A JavaScript string is modelled by the bytes of its UTF-8 encoding, which is how the
  literals stand in the source files: the accented i of the word for country is the two
  bytes \<open>0xC3 0xAD\<close>, the accented o of the word for region is \<open>0xC3 0xB3\<close>.
  Concatenation, emptiness and equality of strings are concatenation, emptiness and
  equality of their encodings.

  An optional argument (\<open>country?: string\<close>) or an optional property is a
  \<open>string option\<close>. \<open>truthy\<close> is the test that \<open>if (x)\<close> and \<open>x || y\<close> make on such a
  value: \<open>undefined\<close> and the empty string are falsy. \<open>str\<close> reads the string of a
  truthy value.
\<close>

definition truthy :: "string option \<Rightarrow> bool" where
  "truthy x = (case x of None \<Rightarrow> False | Some s \<Rightarrow> s \<noteq> [])"

definition str :: "string option \<Rightarrow> string" where
  "str x = (case x of None \<Rightarrow> [] | Some s \<Rightarrow> s)"

text \<open>
  A thrown value. \<open>Error\<close> is what the source itself throws (\<open>new Error(msg)\<close>); the
  others are the platform's exceptions that the modelled code can meet: \<open>TypeError\<close>
  from \<open>new URL\<close>, \<open>RangeError\<close> from the \<open>Int16Array\<close> constructor, and a
  \<open>DOMException\<close> with its name (\<open>InvalidCharacterError\<close> from \<open>atob\<close>,
  \<open>NotSupportedError\<close> from \<open>createBuffer\<close>). Each carries its message,
  which \<open>message_of\<close> reads (the property \<open>error.message\<close>).
\<close>

datatype js_error =
    Error string
  | TypeError string
  | RangeError string
  | DOMException string string

fun message_of :: "js_error \<Rightarrow> string" where
  "message_of (Error m) = m"
| "message_of (TypeError m) = m"
| "message_of (RangeError m) = m"
| "message_of (DOMException n m) = m"

section \<open>services/geminiService.ts: searchLegalInfo\<close>

subsection \<open>Data\<close>

text \<open>\<open>Source\<close> of types.ts: \<open>{ title?: string; uri: string }\<close>.\<close>

record source =
  title :: "string option"
  uri :: string

text \<open>
  \<open>ChatMessage\<close> and \<open>SearchState\<close> of types.ts. \<open>msg_id\<close>, \<open>msg_text\<close> and
  \<open>msg_sources\<close> are the fields \<open>id\<close>, \<open>text\<close> and \<open>sources\<close>; \<open>timestamp\<close> is a
  number of milliseconds.
\<close>

datatype role = User | Model

record chat_message =
  msg_id :: string
  msg_role :: role
  msg_text :: string
  msg_sources :: "source list option"
  timestamp :: nat

record search_state =
  isLoading :: bool
  error :: "string option"
  hasSearched :: bool

text \<open>
  What \<open>searchLegalInfo\<close> reads of the provider's response: \<open>response.text\<close>, and
  \<open>response.candidates?.[0]?.groundingMetadata?.groundingChunks\<close>, a list of chunks
  each with an optional \<open>web\<close> object of optional \<open>uri\<close> and \<open>title\<close>.
\<close>

record web_chunk =
  web_uri :: "string option"
  web_title :: "string option"

record chunk =
  web :: "web_chunk option"

record response =
  resp_text :: "string option"
  groundingChunks :: "chunk list option"

subsection \<open>The effective query (lines 22-34)\<close>

definition contextString :: "string option \<Rightarrow> string option \<Rightarrow> string" where
  "contextString country state =
     (if truthy country then ''Pa'' @ [CHR 0xC3, CHR 0xAD] @ ''s: '' @ str country else []) @
     (if truthy state then '', Estado/Regi'' @ [CHR 0xC3, CHR 0xB3] @ ''n: '' @ str state else [])"

definition contextualizedQuery :: "string \<Rightarrow> string option \<Rightarrow> string option \<Rightarrow> string" where
  "contextualizedQuery query country state =
     (if contextString country state \<noteq> []
      then ''Contexto Legal ('' @ contextString country state @
           ''). Pregunta del usuario: '' @ query
      else query)"

subsection \<open>Source extraction (lines 45-62)\<close>

definition fallback_text :: string where
  "fallback_text = ''Lo siento, no pude generar una respuesta en este momento.''"

text \<open>
  The body of the \<open>chunks.forEach\<close> callback, on the \<open>sources\<close> array built so far.
  \<open>hostname u\<close> stands for the platform's \<open>new URL(u).hostname\<close>: \<open>None\<close> when the
  constructor throws its \<open>TypeError\<close>. The \<open>||\<close> evaluates it only when the title is
  falsy.
\<close>

definition chunk_callback ::
  "(string \<Rightarrow> string option) \<Rightarrow> source list \<Rightarrow> chunk \<Rightarrow> js_error + source list" where
  "chunk_callback hostname sources c =
     (case web c of
        None \<Rightarrow> Inr sources
      | Some w \<Rightarrow>
          if truthy (web_uri w) then
            (if truthy (web_title w)
             then Inr (sources @ [\<lparr>title = web_title w, uri = str (web_uri w)\<rparr>])
             else (case hostname (str (web_uri w)) of
                     None \<Rightarrow> Inl (TypeError ''Invalid URL'')
                   | Some h \<Rightarrow> Inr (sources @ [\<lparr>title = Some h, uri = str (web_uri w)\<rparr>])))
          else Inr sources)"

text \<open>\<open>forEach\<close> with a callback that may throw: the first exception ends the loop.\<close>

fun forEach :: "('s \<Rightarrow> 'a \<Rightarrow> js_error + 's) \<Rightarrow> 's \<Rightarrow> 'a list \<Rightarrow> js_error + 's" where
  "forEach f s [] = Inr s"
| "forEach f s (x # xs) = (case f s x of Inl e \<Rightarrow> Inl e | Inr s' \<Rightarrow> forEach f s' xs)"

text \<open>Lines 45-62: what the function does with the provider's response.\<close>

definition extract_response ::
  "(string \<Rightarrow> string option) \<Rightarrow> response \<Rightarrow> js_error + (string \<times> source list)" where
  "extract_response hostname r =
     (let text = (if truthy (resp_text r) then str (resp_text r) else fallback_text) in
      case groundingChunks r of
        None \<Rightarrow> Inr (text, [])
      | Some chunks \<Rightarrow>
          (case forEach (chunk_callback hostname) [] chunks of
             Inl e \<Rightarrow> Inl e
           | Inr sources \<Rightarrow> Inr (text, sources)))"

text \<open>
  The body of the \<open>try\<close>. \<open>generateContent\<close> stands for the awaited provider call
  \<open>ai.models.generateContent\<close>, given the \<open>contents\<close> it is sent: it rejects
  (\<open>Inl\<close>) or resolves with a response.
\<close>

definition searchLegalInfo_try ::
  "(string \<Rightarrow> string option) \<Rightarrow> (string \<Rightarrow> js_error + response) \<Rightarrow>
   string \<Rightarrow> string option \<Rightarrow> string option \<Rightarrow> js_error + (string \<times> source list)" where
  "searchLegalInfo_try hostname generateContent query country state =
     (case generateContent (contextualizedQuery query country state) of
        Inl e \<Rightarrow> Inl e
      | Inr r \<Rightarrow> extract_response hostname r)"

definition search_error :: js_error where
  "search_error =
     Error ''Hubo un error al consultar el asistente legal. Por favor intenta de nuevo.''"

text \<open>The whole function: the \<open>catch\<close> replaces every exception by one fixed \<open>Error\<close>.\<close>

definition searchLegalInfo ::
  "(string \<Rightarrow> string option) \<Rightarrow> (string \<Rightarrow> js_error + response) \<Rightarrow>
   string \<Rightarrow> string option \<Rightarrow> string option \<Rightarrow> js_error + (string \<times> source list)" where
  "searchLegalInfo hostname generateContent query country state =
     (case searchLegalInfo_try hostname generateContent query country state of
        Inl e \<Rightarrow> Inl search_error
      | Inr res \<Rightarrow> Inr res)"

text \<open>
  The \<open>uri\<close> that a record contributes to the extraction: its own when it has a
  \<open>web\<close> object with a truthy \<open>uri\<close>, none otherwise.
\<close>

definition usable_uri :: "chunk \<Rightarrow> string list" where
  "usable_uri c =
     (case web c of
        None \<Rightarrow> []
      | Some w \<Rightarrow> if truthy (web_uri w) then [str (web_uri w)] else [])"

subsection \<open>A URL parser for the examples\<close>

text \<open>
  The theorems on \<open>searchLegalInfo\<close> hold for every \<open>hostname\<close> function. To run the
  code on concrete citation lists, \<open>url_hostname\<close> answers as \<open>new URL(u).hostname\<close>
  does on two kinds of input: a string with no \<open>scheme:\<close> prefix, which the constructor
  rejects, and an absolute \<open>http://\<close> or \<open>https://\<close> URL whose host is made of lower-case
  letters and dots, whose hostname is that host. Every other string is outside what it
  covers and is answered \<open>None\<close>.
\<close>

definition lower_or_dot :: "char \<Rightarrow> bool" where
  "lower_or_dot c = (c = CHR ''.'' \<or> (97 \<le> (of_char c :: nat) \<and> (of_char c :: nat) \<le> 122))"

definition url_hostname :: "string \<Rightarrow> string option" where
  "url_hostname u =
     (let scheme = takeWhile (\<lambda>c. c \<noteq> CHR '':'') u;
          rest = drop (length scheme) u;
          host = takeWhile (\<lambda>c. c \<noteq> CHR ''/'' \<and> c \<noteq> CHR ''?'' \<and> c \<noteq> CHR ''#'') (drop 3 rest)
      in if (scheme = ''http'' \<or> scheme = ''https'') \<and> take 3 rest = ''://'' \<and>
            host \<noteq> [] \<and> list_all lower_or_dot host
         then Some host else None)"

section \<open>components/ChatMessage.tsx: decoding and playback\<close>

subsection \<open>decode (lines 12-20)\<close>

text \<open>
  \<open>atob\<close> is the platform's forgiving base64 decoder: it removes ASCII whitespace,
  removes one or two trailing \<open>=\<close> when the length is a multiple of four, rejects a
  length of 1 modulo 4 and any character outside the alphabet with an
  \<open>InvalidCharacterError\<close>, and reads six bits per character, dropping the 4 or 2 bits
  left over by a final group of two or three characters. Its result is a binary string,
  here the list of its character codes.
\<close>

definition ascii_whitespace :: "char \<Rightarrow> bool" where
  "ascii_whitespace c =
     (c = CHR 0x09 \<or> c = CHR 0x0A \<or> c = CHR 0x0C \<or> c = CHR 0x0D \<or> c = CHR 0x20)"

definition base64_value :: "char \<Rightarrow> nat option" where
  "base64_value c =
     (let n = (of_char c :: nat) in
      if 65 \<le> n \<and> n \<le> 90 then Some (n - 65)
      else if 97 \<le> n \<and> n \<le> 122 then Some (n - 71)
      else if 48 \<le> n \<and> n \<le> 57 then Some (n + 4)
      else if n = 43 then Some 62
      else if n = 47 then Some 63
      else None)"

definition strip_padding :: "string \<Rightarrow> string" where
  "strip_padding d =
     (if length d mod 4 = 0 then
        (if drop (length d - 2) d = ''=='' then take (length d - 2) d
         else if drop (length d - 1) d = ''='' then take (length d - 1) d
         else d)
      else d)"

fun base64_bytes :: "nat list \<Rightarrow> nat list" where
  "base64_bytes (a # b # c # d # rest) =
     (let n = ((a * 64 + b) * 64 + c) * 64 + d
      in n div 65536 # n div 256 mod 256 # n mod 256 # base64_bytes rest)"
| "base64_bytes [a, b, c] = (let n = ((a * 64 + b) * 64 + c) div 4 in [n div 256, n mod 256])"
| "base64_bytes [a, b] = [(a * 64 + b) div 16]"
| "base64_bytes _ = []"

definition atob :: "string \<Rightarrow> js_error + nat list" where
  "atob s =
     (let d = strip_padding (filter (\<lambda>c. \<not> ascii_whitespace c) s) in
      if length d mod 4 = 1 then Inl (DOMException ''InvalidCharacterError'' ''atob'')
      else (case those (map base64_value d) of
              None \<Rightarrow> Inl (DOMException ''InvalidCharacterError'' ''atob'')
            | Some vs \<Rightarrow> Inr (base64_bytes vs)))"

text \<open>
  \<open>decode\<close>: the loop stores \<open>charCodeAt(i)\<close> into a \<open>Uint8Array\<close> of the string's
  length, one byte per character.
\<close>

definition decode :: "string \<Rightarrow> js_error + 8 word list" where
  "decode base64 =
     (case atob base64 of
        Inl e \<Rightarrow> Inl e
      | Inr binaryString \<Rightarrow> Inr (map (\<lambda>code. (of_nat code :: 8 word)) binaryString))"

subsection \<open>pcmToAudioBuffer (lines 23-38)\<close>

record audio_buffer =
  numberOfChannels :: nat
  sampleRate :: nat
  channelData :: "rat list"

text \<open>
  \<open>new Int16Array(data.buffer)\<close> views the bytes two by two, low byte first (the byte
  order of the platforms the code runs on), each pair a signed 16-bit integer. The
  constructor throws a \<open>RangeError\<close> when the byte length is not a multiple of two.
\<close>

fun pairs16 :: "8 word list \<Rightarrow> 16 word list" where
  "pairs16 (lo # hi # rest) = (ucast lo OR push_bit 8 (ucast hi)) # pairs16 rest"
| "pairs16 _ = []"

definition Int16Array :: "8 word list \<Rightarrow> js_error + 16 word list" where
  "Int16Array buffer =
     (if even (length buffer) then Inr (pairs16 buffer)
      else Inl (RangeError ''byte length of Int16Array should be a multiple of 2''))"

text \<open>
  \<open>ctx.createBuffer(1, frameCount, sampleRate)\<close>: a zero-filled buffer; the platform
  throws a \<open>NotSupportedError\<close> when the number of channels or of frames is zero. (It
  also restricts the sample rate; the code only passes 24000, which every platform
  accepts, so the rate is not checked here.)
\<close>

definition createBuffer :: "nat \<Rightarrow> nat \<Rightarrow> nat \<Rightarrow> js_error + audio_buffer" where
  "createBuffer channels frameCount rate =
     (if channels = 0 \<or> frameCount = 0
      then Inl (DOMException ''NotSupportedError'' ''createBuffer'')
      else Inr \<lparr>numberOfChannels = channels, sampleRate = rate,
                channelData = replicate frameCount 0\<rparr>)"

text \<open>
  The loop of lines 33-35 writes \<open>pcm16[i] / 32768.0\<close> at every index below
  \<open>frameCount = pcm16.length\<close>. Amplitudes are rationals: the quotient of a 16-bit
  integer by \<open>2 ^ 15\<close> is a binary fraction that the \<open>Float32Array\<close> holds exactly
  (see \<open>amplitude_is_binary32\<close>), so no rounding takes place.
\<close>

definition amplitude :: "16 word \<Rightarrow> rat" where
  "amplitude s = of_int (sint s) / 32768"

definition pcmToAudioBuffer :: "8 word list \<Rightarrow> nat \<Rightarrow> js_error + audio_buffer" where
  "pcmToAudioBuffer data rate =
     (case Int16Array data of
        Inl e \<Rightarrow> Inl e
      | Inr pcm16 \<Rightarrow>
          (case createBuffer 1 (length pcm16) rate of
             Inl e \<Rightarrow> Inl e
           | Inr audioBuffer \<Rightarrow> Inr (audioBuffer\<lparr>channelData := map amplitude pcm16\<rparr>)))"

subsection \<open>The component's state and stopAudio (lines 40-68)\<close>

datatype audio_context = AudioContext nat

datatype source_node = BufferSource audio_buffer

text \<open>
  One \<open>ChatMessage\<close> component: its two \<open>useState\<close> cells and its two \<open>useRef\<close>
  cells. Every rendered message has its own.
\<close>

record component =
  isPlaying :: bool
  isLoadingAudio :: bool
  audioContextRef :: "audio_context option"
  sourceRef :: "source_node option"

definition initial_component :: component where
  "initial_component =
     \<lparr>isPlaying = False, isLoadingAudio = False, audioContextRef = None, sourceRef = None\<rparr>"

text \<open>
  What the button shows (lines 146-152 of the render): the spinner while
  \<open>isLoadingAudio\<close>, else the stop icon while \<open>isPlaying\<close>, else the speaker.
\<close>

datatype playback_state = Idle | Loading | Playing

definition playbackState :: "component \<Rightarrow> playback_state" where
  "playbackState st =
     (if isLoadingAudio st then Loading else if isPlaying st then Playing else Idle)"

text \<open>
  \<open>try { body } catch (e) { handler }\<close> on results.
\<close>

definition try_catch :: "js_error + 'a \<Rightarrow> (js_error \<Rightarrow> js_error + 'a) \<Rightarrow> js_error + 'a" where
  "try_catch body handler = (case body of Inl e \<Rightarrow> handler e | Inr v \<Rightarrow> Inr v)"

text \<open>
  \<open>stopAudio\<close>. \<open>stop\<close> stands for the platform's \<open>AudioBufferSourceNode.stop()\<close>,
  which may throw; \<open>close()\<close> returns a promise and does not throw.
\<close>

definition stopAudio ::
  "(source_node \<Rightarrow> js_error + unit) \<Rightarrow> component \<Rightarrow> js_error + component" where
  "stopAudio stop st =
     (case (case sourceRef st of
              None \<Rightarrow> Inr st
            | Some node \<Rightarrow>
                (case try_catch (stop node) (\<lambda>e. Inr ()) of
                   Inl e \<Rightarrow> Inl e
                 | Inr u \<Rightarrow> Inr (st\<lparr>sourceRef := None\<rparr>))) of
        Inl e \<Rightarrow> Inl e
      | Inr st1 \<Rightarrow>
          Inr ((case audioContextRef st1 of
                  None \<Rightarrow> st1
                | Some ctx \<Rightarrow> st1\<lparr>audioContextRef := None\<rparr>)\<lparr>isPlaying := False\<rparr>))"

subsection \<open>handleSpeak (lines 70-116)\<close>

text \<open>
  \<open>handleSpeak\<close> up to its \<open>await\<close>. The second component of the result is the text
  passed to \<open>generateSpeech\<close>, \<open>None\<close> when no synthesis call is made.
\<close>

definition handleSpeak_call ::
  "(source_node \<Rightarrow> js_error + unit) \<Rightarrow> chat_message \<Rightarrow> component \<Rightarrow>
   js_error + (component \<times> string option)" where
  "handleSpeak_call stop message st =
     (if isPlaying st then
        (case stopAudio stop st of Inl e \<Rightarrow> Inl e | Inr st' \<Rightarrow> Inr (st', None))
      else Inr (st\<lparr>isLoadingAudio := True\<rparr>, Some (msg_text message)))"

text \<open>
  Steps 2 to 5 of the \<open>try\<close> block, with the payload that \<open>generateSpeech\<close> resolved
  to. The result is the component as the block leaves it and the exception it threw, if
  any: the context reference assigned in step 2 stays assigned when a later step throws.
\<close>

definition play_payload :: "string \<Rightarrow> component \<Rightarrow> component \<times> js_error option" where
  "play_payload base64Audio st =
     (let st1 = st\<lparr>audioContextRef := Some (AudioContext 24000)\<rparr> in
      case decode base64Audio of
        Inl e \<Rightarrow> (st1, Some e)
      | Inr audioBytes \<Rightarrow>
          (case pcmToAudioBuffer audioBytes 24000 of
             Inl e \<Rightarrow> (st1, Some e)
           | Inr audioBuffer \<Rightarrow>
               (st1\<lparr>sourceRef := Some (BufferSource audioBuffer), isPlaying := True\<rparr>, None)))"

text \<open>
  \<open>handleSpeak\<close> from the \<open>await\<close> on, given what \<open>generateSpeech\<close> settled to. The
  second component of the result is the text of the \<open>alert\<close>, if there is one.
\<close>

definition handleSpeak_resume ::
  "js_error + string \<Rightarrow> component \<Rightarrow> component \<times> string option" where
  "handleSpeak_resume outcome st =
     (let (st', thrown) = (case outcome of
                             Inl e \<Rightarrow> (st, Some e)
                           | Inr base64Audio \<Rightarrow> play_payload base64Audio st)
      in (st'\<lparr>isLoadingAudio := False\<rparr>,
          case thrown of None \<Rightarrow> None | Some e \<Rightarrow> Some ''No se pudo reproducir el audio.''))"

text \<open>The \<open>onended\<close> callback of the source node.\<close>

definition onended :: "component \<Rightarrow> component" where
  "onended st = st\<lparr>isPlaying := False, sourceRef := None\<rparr>"

subsection \<open>All the rendered messages\<close>

text \<open>
  The page renders one component per message, keyed by the message's \<open>id\<close>
  (App.tsx, line 284). A click on the button of message \<open>m\<close> runs \<open>handleSpeak\<close> in
  that component.
\<close>

definition speak_call ::
  "(source_node \<Rightarrow> js_error + unit) \<Rightarrow> (string \<Rightarrow> component) \<Rightarrow> chat_message \<Rightarrow>
   js_error + ((string \<Rightarrow> component) \<times> string option)" where
  "speak_call stop page m =
     (case handleSpeak_call stop m (page (msg_id m)) of
        Inl e \<Rightarrow> Inl e
      | Inr (st', request) \<Rightarrow> Inr (page(msg_id m := st'), request))"

definition speak_resume ::
  "js_error + string \<Rightarrow> (string \<Rightarrow> component) \<Rightarrow> chat_message \<Rightarrow> (string \<Rightarrow> component)" where
  "speak_resume outcome page m =
     page(msg_id m := fst (handleSpeak_resume outcome (page (msg_id m))))"

text \<open>
  One click whose synthesis call, if it makes one, has settled to \<open>outcome\<close> before
  the next click; a sequence of such clicks; and the turns of a list that are
  \<open>Playing\<close> on a page.
\<close>

definition speak ::
  "(source_node \<Rightarrow> js_error + unit) \<Rightarrow> js_error + string \<Rightarrow> (string \<Rightarrow> component) \<Rightarrow>
   chat_message \<Rightarrow> js_error + (string \<Rightarrow> component)" where
  "speak stop outcome page m =
     (case speak_call stop page m of
        Inl e \<Rightarrow> Inl e
      | Inr (page', None) \<Rightarrow> Inr page'
      | Inr (page', Some text) \<Rightarrow> Inr (speak_resume outcome page' m))"

fun speak_all ::
  "(source_node \<Rightarrow> js_error + unit) \<Rightarrow> (string \<Rightarrow> component) \<Rightarrow>
   (chat_message \<times> (js_error + string)) list \<Rightarrow> js_error + (string \<Rightarrow> component)" where
  "speak_all stop page [] = Inr page"
| "speak_all stop page ((m, outcome) # clicks) =
     (case speak stop outcome page m of
        Inl e \<Rightarrow> Inl e
      | Inr page' \<Rightarrow> speak_all stop page' clicks)"

definition playing_turns :: "string list \<Rightarrow> (string \<Rightarrow> component) \<Rightarrow> string list" where
  "playing_turns ids page = filter (\<lambda>k. playbackState (page k) = Playing) ids"

section \<open>App.tsx: the query session\<close>

subsection \<open>String.prototype.trim and Number.prototype.toString\<close>

text \<open>
  The white space and line terminators that \<open>trim\<close> removes, in UTF-8: TAB, LF, VT, FF,
  CR, SPACE, U+00A0, U+1680, U+2000 to U+200A, U+2028, U+2029, U+202F, U+205F, U+3000
  and U+FEFF.
\<close>

definition white_space :: "string list" where
  "white_space =
     [[CHR 0x09], [CHR 0x0A], [CHR 0x0B], [CHR 0x0C], [CHR 0x0D], [CHR 0x20],
      [CHR 0xC2, CHR 0xA0], [CHR 0xE1, CHR 0x9A, CHR 0x80]] @
     map (\<lambda>n. [CHR 0xE2, CHR 0x80, char_of (n :: nat)]) [0x80 ..< 0x8B] @
     [[CHR 0xE2, CHR 0x80, CHR 0xA8], [CHR 0xE2, CHR 0x80, CHR 0xA9],
      [CHR 0xE2, CHR 0x80, CHR 0xAF], [CHR 0xE2, CHR 0x81, CHR 0x9F],
      [CHR 0xE3, CHR 0x80, CHR 0x80], [CHR 0xEF, CHR 0xBB, CHR 0xBF]]"

text \<open>The length of the member of \<open>ws\<close> that \<open>s\<close> starts with, 0 when there is none.\<close>

definition prefix_length :: "string list \<Rightarrow> string \<Rightarrow> nat" where
  "prefix_length ws s =
     (case filter (\<lambda>w. take (length w) s = w) ws of [] \<Rightarrow> 0 | w # _ \<Rightarrow> length w)"

function strip :: "string list \<Rightarrow> string \<Rightarrow> string" where
  "strip ws s =
     (if s = [] \<or> prefix_length ws s = 0 then s else strip ws (drop (prefix_length ws s) s))"
  by pat_completeness auto
termination
  by (relation "measure (\<lambda>(ws, s). length s)") auto

declare strip.simps [simp del]

definition trim :: "string \<Rightarrow> string" where
  "trim s = rev (strip (map rev white_space) (rev (strip white_space s)))"

text \<open>The decimal digits of a number, as \<open>Date.now().toString()\<close> gives them.\<close>

function toString :: "nat \<Rightarrow> string" where
  "toString n =
     (if n < 10 then [char_of (48 + n)]
      else toString (n div 10) @ [char_of (48 + n mod 10)])"
  by pat_completeness auto
termination
  by (relation "measure id") auto

declare toString.simps [simp del]

subsection \<open>The state of the App component\<close>

record app =
  messages :: "chat_message list"
  inputValue :: string
  selectedCountry :: string
  selectedState :: string
  searchState :: search_state

definition initial_app :: app where
  "initial_app =
     \<lparr>messages = [], inputValue = [], selectedCountry = [], selectedState = [],
      searchState = \<lparr>isLoading = False, error = None, hasSearched = False\<rparr>\<rparr>"

subsection \<open>handleSearch (lines 38-77)\<close>

text \<open>
  \<open>handleSearch\<close> up to its \<open>await\<close>; \<open>now1\<close> and \<open>now2\<close> are what the two calls of
  \<open>Date.now()\<close> return. The second component of the result is the call
  \<open>searchLegalInfo(query, selectedCountry, selectedState)\<close> that the function then
  awaits, \<open>None\<close> when it returned at the guard.
\<close>

definition handleSearch_call ::
  "nat \<Rightarrow> nat \<Rightarrow> app \<Rightarrow> app \<times> (string \<times> string \<times> string) option" where
  "handleSearch_call now1 now2 a =
     (if trim (inputValue a) = [] \<or> isLoading (searchState a) then (a, None)
      else
        (let query = trim (inputValue a);
             userMessage = \<lparr>msg_id = toString now1, msg_role = User, msg_text = query,
                            msg_sources = None, timestamp = now2\<rparr>
         in (a\<lparr>inputValue := [],
               messages := messages a @ [userMessage],
               searchState := \<lparr>isLoading = True, error = None, hasSearched = True\<rparr>\<rparr>,
             Some (query, selectedCountry a, selectedState a))))"

text \<open>The awaited call, on the platform's URL parser and the provider.\<close>

definition handleSearch_await ::
  "(string \<Rightarrow> string option) \<Rightarrow> (string \<Rightarrow> js_error + response) \<Rightarrow>
   string \<times> string \<times> string \<Rightarrow> js_error + (string \<times> source list)" where
  "handleSearch_await hostname generateContent call =
     (case call of (query, country, state) \<Rightarrow>
        searchLegalInfo hostname generateContent query (Some country) (Some state))"

text \<open>
  \<open>handleSearch\<close> from the \<open>await\<close> on, given what the call settled to. Both branches
  update the state through functions of the previous state (\<open>prev => ...\<close>), so they
  act on the state as it is when the call settles.
\<close>

definition handleSearch_resume ::
  "nat \<Rightarrow> nat \<Rightarrow> js_error + (string \<times> source list) \<Rightarrow> app \<Rightarrow> app" where
  "handleSearch_resume now1 now2 outcome a =
     (case outcome of
        Inr (text, sources) \<Rightarrow>
          (let aiMessage = \<lparr>msg_id = toString (now1 + 1), msg_role = Model, msg_text = text,
                            msg_sources = Some sources, timestamp = now2\<rparr>
           in a\<lparr>messages := messages a @ [aiMessage],
                searchState := (searchState a)\<lparr>isLoading := False\<rparr>\<rparr>)
      | Inl e \<Rightarrow>
          a\<lparr>searchState := (searchState a)
               \<lparr>isLoading := False,
                error := Some (if message_of e \<noteq> [] then message_of e
                               else ''Ocurri'' @ [CHR 0xC3, CHR 0xB3] @
                                    '' un error inesperado.'')\<rparr>\<rparr>)"

subsection \<open>The click on the header (lines 133-137)\<close>

definition reset :: "app \<Rightarrow> app" where
  "reset a =
     a\<lparr>searchState := \<lparr>isLoading = False, error = None, hasSearched = False\<rparr>,
       messages := [],
       inputValue := []\<rparr>"

section \<open>Properties of searchLegalInfo\<close>

lemma truthy_str: "truthy x \<Longrightarrow> x = Some (str x) \<and> str x \<noteq> []"
  by (cases x) (simp_all add: truthy_def str_def)

lemma fallback_nonempty: "fallback_text \<noteq> []"
  by (simp add: fallback_text_def)

lemma extract_response_text:
  "extract_response hostname r = Inr (text, sources) \<Longrightarrow>
   text = (if truthy (resp_text r) then str (resp_text r) else fallback_text)"
  by (auto simp: extract_response_def Let_def split: option.splits sum.splits)

text \<open>
  The loop keeps the order of the records and appends one source for each record that
  has a \<open>uri\<close>.
\<close>

lemma forEach_uris:
  "forEach (chunk_callback h) acc cs = Inr srcs \<Longrightarrow>
   map uri srcs = map uri acc @ concat (map usable_uri cs)"
proof (induction cs arbitrary: acc)
  case Nil
  then show ?case by simp
next
  case (Cons c cs)
  then show ?case
    by (auto simp: chunk_callback_def usable_uri_def split: sum.splits option.splits if_splits)
qed

text \<open>
  A record with a \<open>uri\<close>, no truthy title and a URL that the parser rejects ends the
  loop with the parser's exception, wherever it stands in the list.
\<close>

lemma forEach_unparseable:
  assumes "c \<in> set cs" and "web c = Some w" and "truthy (web_uri w)"
    and "\<not> truthy (web_title w)" and "hostname (str (web_uri w)) = None"
  shows "\<exists>e. forEach (chunk_callback hostname) acc cs = Inl e"
  using assms(1)
proof (induction cs arbitrary: acc)
  case Nil
  then show ?case by simp
next
  case (Cons d ds)
  show ?case
  proof (cases "chunk_callback hostname acc d")
    case (Inl e)
    then show ?thesis by simp
  next
    case (Inr acc')
    with assms(2-5) have "d \<noteq> c" by (auto simp: chunk_callback_def)
    with Cons.prems have "c \<in> set ds" by simp
    from Cons.IH [OF this, of acc'] Inr show ?thesis by simp
  qed
qed

text \<open>
  Claim C9. When the country is empty or absent and the state/region is not, the query
  sent to the provider is \<open>Contexto Legal (, Estado/Region: <state>). Pregunta del
  usuario: <query>\<close> (with the accented o): the preamble is still prepended, it begins
  with a comma and a space and names no country. The second conjunct says that this
  string is what the provider call receives.
\<close>

theorem effective_query_without_country:
  assumes "\<not> truthy country" and "truthy state"
  shows "contextualizedQuery query country state =
           ''Contexto Legal (, Estado/Regi'' @ [CHR 0xC3, CHR 0xB3] @ ''n: '' @ str state @
           ''). Pregunta del usuario: '' @ query
         \<and> searchLegalInfo_try hostname generateContent query country state =
           (case generateContent
                   (''Contexto Legal (, Estado/Regi'' @ [CHR 0xC3, CHR 0xB3] @ ''n: '' @
                    str state @ ''). Pregunta del usuario: '' @ query) of
              Inl e \<Rightarrow> Inl e
            | Inr r \<Rightarrow> extract_response hostname r)"
  using assms
  by (simp add: contextualizedQuery_def contextString_def searchLegalInfo_try_def)

text \<open>The empty country that the page passes by default, with the state Jalisco.\<close>

theorem effective_query_without_country_witness:
  "\<not> truthy (Some []) \<and> truthy (Some ''Jalisco'') \<and>
   contextualizedQuery ''renta'' (Some []) (Some ''Jalisco'') =
     ''Contexto Legal (, Estado/Regi'' @ [CHR 0xC3, CHR 0xB3] @
     ''n: Jalisco). Pregunta del usuario: renta''"
proof -
  have a: "\<not> truthy (Some [])" by (simp add: truthy_def)
  have b: "truthy (Some ''Jalisco'')" by (simp add: truthy_def)
  from effective_query_without_country [OF a b, of "''renta''"] a b
  show ?thesis by (simp add: str_def)
qed

text \<open>
  Claim C10. The answer text of every successful query is non-empty: it is the
  provider's text when that is non-empty, and the fixed fallback sentence when the
  provider's text is empty or absent.
\<close>

theorem answer_text_nonempty:
  assumes "searchLegalInfo hostname generateContent query country state = Inr (text, sources)"
  shows "text \<noteq> [] \<and>
         (\<exists>r. generateContent (contextualizedQuery query country state) = Inr r \<and>
              text = (if truthy (resp_text r) then str (resp_text r) else fallback_text))"
proof -
  from assms obtain r where
    r: "generateContent (contextualizedQuery query country state) = Inr r" and
    x: "extract_response hostname r = Inr (text, sources)"
    by (auto simp: searchLegalInfo_def searchLegalInfo_try_def split: sum.splits)
  have t: "text = (if truthy (resp_text r) then str (resp_text r) else fallback_text)"
    using x by (rule extract_response_text)
  have "text \<noteq> []"
    using t truthy_str [of "resp_text r"] fallback_nonempty by (simp split: if_splits)
  with r t show ?thesis by blast
qed

text \<open>A provider answer with an empty text and no citations.\<close>

theorem answer_text_nonempty_witness:
  "searchLegalInfo url_hostname (\<lambda>contents. Inr \<lparr>resp_text = Some [], groundingChunks = None\<rparr>)
     ''renta'' None None = Inr (fallback_text, []) \<and> fallback_text \<noteq> []"
proof -
  have h: "searchLegalInfo url_hostname
             (\<lambda>contents. Inr \<lparr>resp_text = Some [], groundingChunks = None\<rparr>)
             ''renta'' None None = Inr (fallback_text, [])"
    by (simp add: searchLegalInfo_def searchLegalInfo_try_def extract_response_def truthy_def)
  from answer_text_nonempty [OF h] h show ?thesis by simp
qed

text \<open>
  Claim C4, as stated, fails: two records with the same \<open>uri\<close> give two sources with
  that \<open>uri\<close>. The second record has no title and takes the host name.
\<close>

theorem sources_not_deduplicated:
  "extract_response url_hostname
     \<lparr>resp_text = Some ''Texto'',
      groundingChunks = Some
        [\<lparr>web = Some \<lparr>web_uri = Some ''https://example.com/x'', web_title = Some ''Ley X''\<rparr>\<rparr>,
         \<lparr>web = Some \<lparr>web_uri = Some ''https://example.com/x'', web_title = None\<rparr>\<rparr>]\<rparr>
   = Inr (''Texto'',
          [\<lparr>title = Some ''Ley X'', uri = ''https://example.com/x''\<rparr>,
           \<lparr>title = Some ''example.com'', uri = ''https://example.com/x''\<rparr>])"
  by (simp add: extract_response_def chunk_callback_def truthy_def str_def url_hostname_def
      lower_or_dot_def)

text \<open>
  Claim C4, amended. For every raw citation list of one query whose extraction
  succeeds, the extracted sequence holds exactly one source for each record that has a
  non-empty \<open>uri\<close>, in the order of the records: records with equal \<open>uri\<close> each
  give their own source, and nothing is deduplicated.
\<close>

theorem sources_one_per_usable_record:
  assumes "groundingChunks r = Some chunks"
    and "extract_response hostname r = Inr (text, sources)"
  shows "map uri sources = concat (map usable_uri chunks)"
  using assms forEach_uris [of hostname "[]" chunks sources]
  by (auto simp: extract_response_def Let_def split: sum.splits)

theorem sources_one_per_usable_record_witness:
  "map uri [\<lparr>title = Some ''Ley X'', uri = ''https://example.com/x''\<rparr>,
            \<lparr>title = Some ''example.com'', uri = ''https://example.com/x''\<rparr>] =
   concat (map usable_uri
     [\<lparr>web = Some \<lparr>web_uri = Some ''https://example.com/x'', web_title = Some ''Ley X''\<rparr>\<rparr>,
      \<lparr>web = Some \<lparr>web_uri = Some ''https://example.com/x'', web_title = None\<rparr>\<rparr>])"
proof -
  let ?cs = "[\<lparr>web = Some \<lparr>web_uri = Some ''https://example.com/x'',
                            web_title = Some ''Ley X''\<rparr>\<rparr>,
              \<lparr>web = Some \<lparr>web_uri = Some ''https://example.com/x'', web_title = None\<rparr>\<rparr>]"
  let ?r = "\<lparr>resp_text = Some ''Texto'', groundingChunks = Some ?cs\<rparr>"
  have x: "extract_response url_hostname ?r =
             Inr (''Texto'',
                  [\<lparr>title = Some ''Ley X'', uri = ''https://example.com/x''\<rparr>,
                   \<lparr>title = Some ''example.com'', uri = ''https://example.com/x''\<rparr>])"
    by (simp add: extract_response_def chunk_callback_def truthy_def str_def url_hostname_def
        lower_or_dot_def)
  show ?thesis
    by (rule sources_one_per_usable_record [OF _ x]) simp
qed

text \<open>
  Claim C3, as stated, fails: a first record whose URL has no scheme and that has no
  title makes the whole call reject with the function's fixed error; the second,
  well-formed record is not extracted.
\<close>

theorem unparseable_url_not_dropped_alone:
  "searchLegalInfo url_hostname
     (\<lambda>contents. Inr \<lparr>resp_text = Some ''Texto'',
        groundingChunks = Some
          [\<lparr>web = Some \<lparr>web_uri = Some ''not a url'', web_title = None\<rparr>\<rparr>,
           \<lparr>web = Some \<lparr>web_uri = Some ''https://example.com/x'',
                          web_title = Some ''Ley X''\<rparr>\<rparr>]\<rparr>)
     ''renta'' None None
   = Inl search_error"
  by (simp add: searchLegalInfo_def searchLegalInfo_try_def extract_response_def
      chunk_callback_def truthy_def str_def url_hostname_def)

text \<open>
  Claim C3, amended. For every raw citation list passed to source extraction, a record
  that has a non-empty \<open>uri\<close>, no non-empty title and a URL that cannot be parsed for
  host extraction is not dropped by itself: the parser's exception leaves the loop and
  is replaced by the function's fixed error, so the operation as a whole fails and no
  record of the batch is extracted.
\<close>

theorem unparseable_url_fails_batch:
  assumes "generateContent (contextualizedQuery query country state) = Inr r"
    and "groundingChunks r = Some chunks"
    and "c \<in> set chunks" and "web c = Some w" and "truthy (web_uri w)"
    and "\<not> truthy (web_title w)" and "hostname (str (web_uri w)) = None"
  shows "searchLegalInfo hostname generateContent query country state = Inl search_error"
proof -
  have "\<exists>e. forEach (chunk_callback hostname) [] chunks = Inl e"
    using assms(3-7) by (rule forEach_unparseable)
  then obtain e where "forEach (chunk_callback hostname) [] chunks = Inl e" ..
  with assms(1,2) show ?thesis
    by (simp add: searchLegalInfo_def searchLegalInfo_try_def extract_response_def Let_def)
qed

text \<open>The unparseable record in second place, with an empty title.\<close>

theorem unparseable_url_fails_batch_witness:
  "url_hostname ''not a url'' = None \<and>
   searchLegalInfo url_hostname
     (\<lambda>contents. Inr \<lparr>resp_text = Some ''Texto'',
        groundingChunks = Some
          [\<lparr>web = Some \<lparr>web_uri = Some ''https://example.com/x'',
                          web_title = Some ''Ley X''\<rparr>\<rparr>,
           \<lparr>web = Some \<lparr>web_uri = Some ''not a url'', web_title = Some []\<rparr>\<rparr>]\<rparr>)
     ''renta'' None None
   = Inl search_error"
proof -
  let ?w = "\<lparr>web_uri = Some ''not a url'', web_title = Some []\<rparr>"
  let ?cs = "[\<lparr>web = Some \<lparr>web_uri = Some ''https://example.com/x'',
                            web_title = Some ''Ley X''\<rparr>\<rparr>,
              \<lparr>web = Some ?w\<rparr>]"
  let ?r = "\<lparr>resp_text = Some ''Texto'', groundingChunks = Some ?cs\<rparr>"
  have p: "url_hostname (str (Some ''not a url'')) = None"
    by (simp add: url_hostname_def str_def)
  have "searchLegalInfo url_hostname (\<lambda>contents. Inr ?r) ''renta'' None None = Inl search_error"
    by (rule unparseable_url_fails_batch
          [where r = ?r and chunks = ?cs and c = "\<lparr>web = Some ?w\<rparr>" and w = ?w])
       (simp_all add: truthy_def p)
  with p show ?thesis by (simp add: str_def)
qed

section \<open>Properties of the query session\<close>

text \<open>
  A submission from the initial page with \<open>hola\<close> typed in: the user turn is appended,
  the query is in flight, and the awaited call carries the empty country and state.
\<close>

lemma call_hola:
  "handleSearch_call 5 5 (initial_app\<lparr>inputValue := ''hola''\<rparr>) =
     (initial_app\<lparr>inputValue := [],
        messages := [\<lparr>msg_id = toString 5, msg_role = User, msg_text = ''hola'',
                      msg_sources = None, timestamp = 5\<rparr>],
        searchState := \<lparr>isLoading = True, error = None, hasSearched = True\<rparr>\<rparr>,
      Some (''hola'', [], []))"
  by (simp add: handleSearch_call_def initial_app_def trim_def strip.simps prefix_length_def
      white_space_def Let_def)

text \<open>The only rejection of the awaited call is the fixed error of \<open>searchLegalInfo\<close>.\<close>

lemma await_error:
  "handleSearch_await hostname generateContent call = Inl e \<Longrightarrow> e = search_error"
  by (auto simp: handleSearch_await_def searchLegalInfo_def split: prod.splits sum.splits)

text \<open>Whatever is thrown, the stored message is a non-empty string.\<close>

lemma error_message_nonempty:
  "\<exists>m. error (searchState (handleSearch_resume t3 t4 (Inl e) a)) = Some m \<and> m \<noteq> []"
  by (simp add: handleSearch_resume_def)

text \<open>
  Claim C1, as stated, fails: after a submission, a click on the header while the query
  is in flight and a successful answer afterwards, the turn list is not empty; it holds
  the assistant turn of the late answer.
\<close>

theorem reset_in_flight_counterexample:
  "snd (handleSearch_call 5 5 (initial_app\<lparr>inputValue := ''hola''\<rparr>)) =
     Some (''hola'', [], []) \<and>
   messages
     (handleSearch_resume 7 7
        (handleSearch_await url_hostname
           (\<lambda>contents. Inr \<lparr>resp_text = Some ''respuesta'', groundingChunks = None\<rparr>)
           (''hola'', [], []))
        (reset (fst (handleSearch_call 5 5 (initial_app\<lparr>inputValue := ''hola''\<rparr>))))) =
     [\<lparr>msg_id = toString 8, msg_role = Model, msg_text = ''respuesta'',
       msg_sources = Some [], timestamp = 7\<rparr>]"
  by (simp add: call_hola handleSearch_await_def searchLegalInfo_def searchLegalInfo_try_def
      extract_response_def truthy_def str_def handleSearch_resume_def reset_def)

text \<open>
  Claim C1, amended. For every session, if the reset is invoked while a query is in
  flight, it empties the turn list; when that query later resolves successfully, its
  assistant turn is still appended, so the turn list then holds exactly that one turn.
  In-flight calls carry no session generation and no late result is discarded.
\<close>

theorem late_result_appended_after_reset:
  assumes "handleSearch_call t1 t2 a = (a1, Some call)"
  shows "messages (reset a1) = [] \<and>
         messages (handleSearch_resume t3 t4 (Inr (text, sources)) (reset a1)) =
           [\<lparr>msg_id = toString (t3 + 1), msg_role = Model, msg_text = text,
             msg_sources = Some sources, timestamp = t4\<rparr>]"
  by (simp add: reset_def handleSearch_resume_def)

theorem late_result_appended_after_reset_witness:
  "messages
     (handleSearch_resume 7 7 (Inr (''respuesta'', []))
        (reset (fst (handleSearch_call 5 5 (initial_app\<lparr>inputValue := ''hola''\<rparr>))))) =
   [\<lparr>msg_id = toString 8, msg_role = Model, msg_text = ''respuesta'',
     msg_sources = Some [], timestamp = 7\<rparr>]"
  using late_result_appended_after_reset [OF call_hola, of 7 7 "''respuesta''" "[]"]
  by (simp add: call_hola)

text \<open>
  Claim C8. For every submitted query whose external call fails, the session sets the
  error to a human-readable message (the sentence that \<open>searchLegalInfo\<close> throws),
  sets the loading flag to false and appends no assistant turn: the turn list is the one
  the submission left, the previous turns followed by the user's turn.
\<close>

theorem failed_query_sets_error:
  assumes "handleSearch_call t1 t2 a = (a1, Some call)"
    and "handleSearch_await hostname generateContent call = Inl e"
  shows "error (searchState (handleSearch_resume t3 t4 (Inl e) a1)) =
           Some ''Hubo un error al consultar el asistente legal. Por favor intenta de nuevo.''
         \<and> isLoading (searchState (handleSearch_resume t3 t4 (Inl e) a1)) = False
         \<and> messages (handleSearch_resume t3 t4 (Inl e) a1) = messages a1
         \<and> messages a1 =
             messages a @ [\<lparr>msg_id = toString t1, msg_role = User,
                            msg_text = trim (inputValue a), msg_sources = None,
                            timestamp = t2\<rparr>]"
proof -
  have e: "e = search_error"
    using assms(2) by (rule await_error)
  have a1: "messages a1 =
              messages a @ [\<lparr>msg_id = toString t1, msg_role = User,
                             msg_text = trim (inputValue a), msg_sources = None,
                             timestamp = t2\<rparr>]"
    using assms(1) by (auto simp: handleSearch_call_def Let_def split: if_splits)
  show ?thesis
    using a1 by (simp add: e search_error_def handleSearch_resume_def)
qed

text \<open>The submission of \<open>hola\<close> with a provider call that rejects.\<close>

theorem failed_query_sets_error_witness:
  "error (searchState (handleSearch_resume 7 7 (Inl search_error)
       (fst (handleSearch_call 5 5 (initial_app\<lparr>inputValue := ''hola''\<rparr>))))) =
     Some ''Hubo un error al consultar el asistente legal. Por favor intenta de nuevo.''
   \<and> messages (handleSearch_resume 7 7 (Inl search_error)
       (fst (handleSearch_call 5 5 (initial_app\<lparr>inputValue := ''hola''\<rparr>)))) =
     [\<lparr>msg_id = toString 5, msg_role = User, msg_text = ''hola'',
       msg_sources = None, timestamp = 5\<rparr>]"
proof -
  have f: "handleSearch_await url_hostname (\<lambda>contents. Inl (TypeError ''fetch failed''))
             (''hola'', [], []) = Inl search_error"
    by (simp add: handleSearch_await_def searchLegalInfo_def searchLegalInfo_try_def)
  from failed_query_sets_error [OF call_hola f, of 7 7]
  show ?thesis by (simp add: call_hola)
qed

section \<open>Properties of decoding and playback\<close>

lemma stopAudio_returns:
  "stopAudio stop st =
     Inr (st\<lparr>sourceRef := None, audioContextRef := None, isPlaying := False\<rparr>)"
  by (cases "sourceRef st"; cases "audioContextRef st")
     (auto simp: stopAudio_def try_catch_def split: sum.splits)

text \<open>The payload \<open>AAA=\<close> is two zero bytes, one silent sample: it plays.\<close>

lemma play_AAA:
  "play_payload ''AAA='' st =
     (st\<lparr>audioContextRef := Some (AudioContext 24000),
         sourceRef := Some (BufferSource \<lparr>numberOfChannels = 1, sampleRate = 24000,
                                         channelData = [0]\<rparr>),
         isPlaying := True\<rparr>, None)"
  by (simp add: play_payload_def decode_def atob_def strip_padding_def
      ascii_whitespace_def base64_value_def pcmToAudioBuffer_def Int16Array_def
      createBuffer_def amplitude_def)

lemma length_pairs16: "length (pairs16 data) = length data div 2"
  by (induction data rule: pairs16.induct) simp_all

text \<open>
  The sample read from a pair of bytes is the signed 16-bit little-endian integer:
  the low byte plus 256 times the high byte, less \<open>2 ^ 16\<close> from \<open>2 ^ 15\<close> on.
\<close>

lemma uint_pair:
  "uint (ucast (lo :: 8 word) OR push_bit 8 (ucast (hi :: 8 word)) :: 16 word) =
   uint lo + 256 * uint hi"
proof -
  have lo: "take_bit 8 (uint lo) = uint lo"
    using uint_lt2p [of lo] by (simp add: take_bit_int_eq_self)
  have hi: "take_bit 16 (push_bit 8 (uint hi)) = push_bit 8 (uint hi)"
    using uint_lt2p [of hi] by (simp add: take_bit_int_eq_self push_bit_eq_mult)
  have "uint (ucast lo OR push_bit 8 (ucast hi) :: 16 word) =
        uint (ucast lo :: 16 word) OR uint (push_bit 8 (ucast hi) :: 16 word)"
    by (simp add: uint_or)
  also have "uint (ucast lo :: 16 word) = uint lo"
    using uint_lt2p [of lo] by (simp add: unsigned_ucast_eq take_bit_int_eq_self)
  also have "uint (push_bit 8 (ucast hi) :: 16 word) = push_bit 8 (uint hi)"
    using hi uint_lt2p [of hi]
    by (simp add: unsigned_push_bit_eq unsigned_ucast_eq take_bit_int_eq_self)
  also have "uint lo OR push_bit 8 (uint hi) = concat_bit 8 (uint lo) (uint hi)"
    by (simp add: concat_bit_def lo)
  also have "\<dots> = uint lo + 256 * uint hi"
    by (simp add: concat_bit_eq lo push_bit_eq_mult)
  finally show ?thesis .
qed

lemma sint16: "sint (w :: 16 word) = (if uint w < 32768 then uint w else uint w - 65536)"
proof -
  have r: "0 \<le> uint w" "uint w < 65536"
    using uint_lt2p [of w] by simp_all
  have "sint w = take_bit 16 (uint w + 32768) - 32768"
    by (simp add: sint_uint signed_take_bit_eq_take_bit_shift)
  also have "\<dots> = (uint w + 32768) mod 65536 - 32768"
    by (simp add: take_bit_eq_mod)
  also have "\<dots> = (if uint w < 32768 then uint w else uint w - 65536)"
  proof (cases "uint w < 32768")
    case True
    with r show ?thesis by (simp add: mod_pos_pos_trivial)
  next
    case False
    have "uint w + 32768 = uint w - 32768 + 65536"
      by arith
    then have "(uint w + 32768) mod 65536 = (uint w - 32768 + 65536) mod 65536"
      by (rule arg_cong)
    also have "\<dots> = (uint w - 32768) mod 65536"
      by (rule mod_add_self2)
    also have "\<dots> = uint w - 32768"
      using r False by (simp add: mod_pos_pos_trivial)
    finally show ?thesis using False by simp
  qed
  finally show ?thesis .
qed

lemma pairs16_little_endian:
  "pairs16 (lo # hi # rest) = s # pairs16 rest \<Longrightarrow>
   sint s = (if uint lo + 256 * uint hi < 32768 then uint lo + 256 * uint hi
             else uint lo + 256 * uint hi - 65536)"
  by (auto simp: sint16 uint_pair)

text \<open>
  Every amplitude is an integer of less than 24 bits over \<open>2 ^ 15\<close>, a value that a
  32-bit float holds exactly, and lies between -1 and 1.
\<close>

lemma amplitude_is_binary32:
  "\<exists>m :: int. \<bar>m\<bar> < 2 ^ 24 \<and> amplitude s = of_int m / 2 ^ 15"
  using sint_ge [of s] sint_lt [of s]
  by (intro exI [of _ "sint s"]) (simp add: amplitude_def del: of_int_sint)

lemma amplitude_range: "- 1 \<le> amplitude s \<and> amplitude s < 1"
  using sint_ge [of s] sint_lt [of s] by (simp add: amplitude_def del: of_int_sint)

text \<open>An empty byte sequence is refused by \<open>createBuffer\<close>: there is no empty buffer.\<close>

lemma empty_audio_fails:
  "pcmToAudioBuffer [] rate = Inl (DOMException ''NotSupportedError'' ''createBuffer'')"
  by (simp add: pcmToAudioBuffer_def Int16Array_def createBuffer_def)

text \<open>
  Claim C5. For every non-empty byte sequence of even length, the decoding succeeds and
  gives each signed 16-bit little-endian sample \<open>s\<close> the amplitude \<open>s / 32768\<close>;
  multiplying the amplitudes by 32768 and rounding gives the samples back, here exactly
  and so within one unit. There is one amplitude per pair of bytes.
\<close>

theorem decode_normalizes_samples:
  assumes "even (length data)" and "data \<noteq> []"
  shows "pcmToAudioBuffer data rate =
           Inr \<lparr>numberOfChannels = 1, sampleRate = rate,
                channelData = map (\<lambda>s. of_int (sint s) / 32768) (pairs16 data)\<rparr>
         \<and> map (\<lambda>x. round (x * 32768))
               (map (\<lambda>s. of_int (sint s) / 32768 :: rat) (pairs16 data)) =
             map sint (pairs16 data)
         \<and> list_all (\<lambda>s. \<bar>round ((of_int (sint s) / 32768 :: rat) * 32768) - sint s\<bar> \<le> 1)
             (pairs16 data)
         \<and> length (pairs16 data) = length data div 2"
proof -
  have "length data \<ge> 2"
    using assms by (cases data; cases "tl data") auto
  then have "length (pairs16 data) \<noteq> 0"
    by (simp add: length_pairs16)
  then have 1: "pcmToAudioBuffer data rate =
           Inr \<lparr>numberOfChannels = 1, sampleRate = rate,
                channelData = map (\<lambda>s. of_int (sint s) / 32768) (pairs16 data)\<rparr>"
    using assms(1)
    by (simp add: pcmToAudioBuffer_def Int16Array_def createBuffer_def amplitude_def [abs_def])
  have 2: "map (\<lambda>x. round (x * 32768))
             (map (\<lambda>s. of_int (sint s) / 32768 :: rat) (pairs16 data)) =
           map sint (pairs16 data)"
    by (simp add: comp_def del: of_int_sint)
  have 3: "list_all (\<lambda>s. \<bar>round ((of_int (sint s) / 32768 :: rat) * 32768) - sint s\<bar> \<le> 1)
             (pairs16 data)"
    by (simp add: list_all_iff del: of_int_sint)
  from 1 2 3 length_pairs16 show ?thesis by blast
qed

text \<open>The samples 32767 and -32768, the two extremes.\<close>

theorem decode_normalizes_samples_witness:
  "pcmToAudioBuffer [255, 127, 0, 128] 24000 =
     Inr \<lparr>numberOfChannels = 1, sampleRate = 24000, channelData = [32767 / 32768, - 1]\<rparr>
   \<and> map (\<lambda>x. round (x * 32768)) [32767 / 32768, - 1 :: rat] = [32767, - 32768]"
proof -
  have a: "even (length [255, 127, 0, 128 :: 8 word])" by simp
  have b: "[255, 127, 0, 128 :: 8 word] \<noteq> []" by simp
  from decode_normalizes_samples [OF a b, of 24000]
  show ?thesis by simp
qed

text \<open>
  Claim C6. For every input whose base64-decoded byte sequence has odd length, the
  decoding fails, and always with the same error: the \<open>RangeError\<close> of the
  \<open>Int16Array\<close> constructor, which is the code's truncated-audio failure. It never
  succeeds and never fails otherwise; in \<open>handleSpeak\<close> no source node is created.
\<close>

theorem odd_length_fails:
  assumes "decode base64 = Inr data" and "odd (length data)"
  shows "pcmToAudioBuffer data rate =
           Inl (RangeError ''byte length of Int16Array should be a multiple of 2'')
         \<and> play_payload base64 st =
           (st\<lparr>audioContextRef := Some (AudioContext 24000)\<rparr>,
            Some (RangeError ''byte length of Int16Array should be a multiple of 2''))"
  using assms by (simp add: pcmToAudioBuffer_def Int16Array_def play_payload_def)

text \<open>The payload \<open>AAAA\<close> is three bytes.\<close>

theorem odd_length_fails_witness:
  "decode ''AAAA'' = Inr [0, 0, 0] \<and>
   pcmToAudioBuffer [0, 0, 0] 24000 =
     Inl (RangeError ''byte length of Int16Array should be a multiple of 2'')"
proof -
  have d: "decode ''AAAA'' = Inr [0, 0, 0]"
    by (simp add: decode_def atob_def strip_padding_def ascii_whitespace_def base64_value_def)
  have "odd (length [0, 0, 0 :: 8 word])" by simp
  from odd_length_fails [OF d this, of 24000] d show ?thesis by simp
qed

text \<open>
  Claim C7. For every turn whose playback state is \<open>Playing\<close>, a call of
  \<open>handleSpeak\<close> on that turn returns normally, whatever the platform's \<open>stop()\<close>
  does (also when it throws because the output had already stopped), makes no
  synthesis call, clears both references and leaves the turn \<open>Idle\<close>.
\<close>

theorem speak_while_playing_stops:
  assumes "playbackState st = Playing"
  shows "handleSpeak_call stop message st =
           Inr (st\<lparr>sourceRef := None, audioContextRef := None, isPlaying := False\<rparr>, None)
         \<and> playbackState (st\<lparr>sourceRef := None, audioContextRef := None,
                              isPlaying := False\<rparr>) = Idle"
  using assms
  by (auto simp: handleSpeak_call_def stopAudio_returns playbackState_def split: if_splits)

text \<open>A turn that plays the payload \<open>AAA=\<close>, with a \<open>stop()\<close> that throws.\<close>

theorem speak_while_playing_stops_witness:
  "playbackState (fst (play_payload ''AAA='' initial_component)) = Playing \<and>
   handleSpeak_call (\<lambda>node. Inl (DOMException ''InvalidStateError'' ''stop''))
     \<lparr>msg_id = ''8'', msg_role = Model, msg_text = ''respuesta'', msg_sources = Some [],
      timestamp = 7\<rparr>
     (fst (play_payload ''AAA='' initial_component)) = Inr (initial_component, None)"
proof -
  have q: "playbackState (fst (play_payload ''AAA='' initial_component)) = Playing"
    by (simp add: play_AAA playbackState_def initial_component_def)
  from speak_while_playing_stops [OF q] q
  show ?thesis by (simp add: play_AAA initial_component_def)
qed

text \<open>
  Claim C2, as stated, fails: after a click on turn 8 and then a click on turn 10, each
  with its synthesis call resolved to a playable payload, both turns are \<open>Playing\<close>.
\<close>

theorem two_turns_playing:
  "map_sum id (playing_turns [''8'', ''10''])
     (speak_all (\<lambda>node. Inr ()) (\<lambda>k. initial_component)
        [(\<lparr>msg_id = ''8'', msg_role = Model, msg_text = ''respuesta'', msg_sources = Some [],
           timestamp = 7\<rparr>, Inr ''AAA=''),
         (\<lparr>msg_id = ''10'', msg_role = Model, msg_text = ''otra'', msg_sources = Some [],
           timestamp = 9\<rparr>, Inr ''AAA='')])
   = Inr [''8'', ''10'']"
  by (simp add: speak_def speak_call_def speak_resume_def handleSpeak_call_def
      handleSpeak_resume_def play_AAA initial_component_def playing_turns_def playbackState_def)

text \<open>
  Claim C2, amended. Every turn has its own playback state and its own references:
  \<open>handleSpeak\<close> on one turn, before and after its synthesis call, changes the state of
  that turn only and leaves every other turn as it is. A turn that is \<open>Playing\<close> keeps
  playing when another turn begins playback; there is no process-wide reference to the
  turn that plays, and several turns can be \<open>Playing\<close> at once.
\<close>

theorem speak_changes_one_turn:
  assumes "k \<noteq> msg_id m"
  shows "(speak_call stop page m = Inr (page', request) \<longrightarrow> page' k = page k)
         \<and> speak_resume outcome page m k = page k
         \<and> (speak stop outcome page m = Inr page'' \<longrightarrow> page'' k = page k)"
  using assms
  by (auto simp: speak_def speak_call_def speak_resume_def
      split: sum.splits option.splits prod.splits)

text \<open>Turn 8 is playing when the synthesis call of turn 10 resolves: it keeps playing.\<close>

theorem speak_changes_one_turn_witness:
  "''8'' \<noteq> ''10'' \<and>
   playbackState
     (speak_resume (Inr ''AAA='')
        ((\<lambda>k. initial_component)
           (''8'' := \<lparr>isPlaying = True, isLoadingAudio = False,
                      audioContextRef = Some (AudioContext 24000),
                      sourceRef = Some (BufferSource \<lparr>numberOfChannels = 1, sampleRate = 24000,
                                                      channelData = [0]\<rparr>)\<rparr>))
        \<lparr>msg_id = ''10'', msg_role = Model, msg_text = ''otra'', msg_sources = Some [],
         timestamp = 9\<rparr> ''8'') = Playing"
proof -
  have d: "''8'' \<noteq> msg_id \<lparr>msg_id = ''10'', msg_role = Model, msg_text = ''otra'',
                              msg_sources = Some [], timestamp = 9\<rparr>"
    by simp
  from speak_changes_one_turn [OF d]
  show ?thesis by (simp add: playbackState_def)
qed

end
